theory Spec2Isabelle
  imports Complex_Main
begin

section \<open>Comet Slider: the slide controller and its transition engine\<close>

text \<open>
  A shallow embedding of \<^verbatim>\<open>src/src/comet-slider.js\<close>, class \<^verbatim>\<open>CometSlider\<close>.
  The slider object becomes a record that every method takes and returns; a method that
  can throw returns an outcome beside the state it leaves behind. What the browser does
  later (the fade's timeout, the texture loads, the animation frames, the handlers of a
  settled promise) becomes an event that is applied to the state by the callback the
  source registered for it.

  The file also holds an older class \<^verbatim>\<open>Slider\<close>; its \<^verbatim>\<open>next\<close>, \<^verbatim>\<open>prev\<close>, the guard and
  the image check of \<^verbatim>\<open>show\<close>, \<^verbatim>\<open>_activateIndex\<close>, \<^verbatim>\<open>_fadeImages\<close> and the progress formula of
  the frame callback are the same text as in \<^verbatim>\<open>CometSlider\<close>.

  Left out, since no definition below reads them: inline styles (opacity, transition,
  position), the geometry of the overlay canvas, console output, and the autoplay timer
  (\<^verbatim>\<open>play\<close>/\<^verbatim>\<open>stop\<close>), whose ticks are calls of \<^verbatim>\<open>next()\<close>.
\<close>

subsection \<open>Data\<close>

datatype js_error =
  RootNotFound | NoSlides | TypeError | ThreeNotFound | ComponentsMissing
  | TextureLoadError | RenderError | RafError | CallbackError

datatype outcome = Returned | Threw js_error

text \<open>A promise is still pending, resolved, or rejected with an error.\<close>

datatype settled = Pending | Resolved | Rejected js_error

text \<open>
  A slide is a direct child \<^verbatim>\<open>div\<close> of the root. \<open>has_img\<close> says whether
  \<^verbatim>\<open>_getDirectImg\<close> finds an image in it; \<open>data_active\<close> is its \<^verbatim>\<open>data-active\<close> attribute
  being \<^verbatim>\<open>'true'\<close>.
\<close>

record slide =
  has_img :: bool
  data_active :: bool

text \<open>What the probing at the head of \<^verbatim>\<open>_webglTransition\<close> finds of Three.js.\<close>

datatype three_lib = ThreeAbsent | ThreeIncomplete | ThreeComplete

text \<open>
  The callback the browser still owes the slider, with the \<^verbatim>\<open>fromIndex\<close> and \<^verbatim>\<open>toIndex\<close>
  its closure holds: the timeout of \<^verbatim>\<open>_fadeImages\<close>, the two texture loads awaited in
  \<^verbatim>\<open>_webglTransition\<close>, the next animation frame of its \<^verbatim>\<open>step\<close>, or the \<^verbatim>\<open>then\<close> and
  \<^verbatim>\<open>catch\<close> handlers that \<^verbatim>\<open>show\<close> chained to its promise, which has settled and whose
  handlers the browser runs in a later microtask.
\<close>

datatype task =
  NoTask | FadeTimer int int | TextureLoad int int | FrameLoop int int
  | Reaction int int settled

text \<open>
  A JavaScript number as far as the frame callback needs it: a finite value, or what a
  division by zero gives. A finite double is a real here; each arithmetic operation
  rounds its exact result with the \<open>rounding\<close> of the slider record below (overflow to
  an infinity is not modelled).
\<close>

datatype jsnum = Fin real | PosInf | NegInf | NaN

text \<open>
  The overlay canvas and the GPU objects of the latest transition session: attached to
  the document, respectively created and not yet disposed. \<open>fed\<close> lists the values of
  \<^verbatim>\<open>uniforms.progress\<close> with which \<^verbatim>\<open>renderer.render\<close> was called, oldest first.
\<close>

record session =
  canvas_attached :: bool
  renderer_live :: bool
  geometry_live :: bool
  material_live :: bool
  tex0_live :: bool
  tex1_live :: bool
  start :: real
  progress :: jsnum
  fed :: "jsnum list"

text \<open>
  \<open>has_onChange\<close>: \<^verbatim>\<open>options.onChange\<close> is a function; \<open>onChange_throws\<close>: a call of it
  throws.
\<close>

record options =
  animation :: string
  duration :: real
  loop :: bool
  has_onChange :: bool
  onChange_throws :: bool

text \<open>
  \<open>changes\<close> lists the calls of \<^verbatim>\<open>options.onChange\<close>, oldest first, each with its first
  and second argument. \<open>three\<close> is the Three.js the page offers, \<open>rounding\<close> the rounding
  of a real to a double. The record holds one owed callback; \<open>untracked\<close> is set once
  a second one was registered beside it, and says that the record no longer describes
  every callback the browser owes.
\<close>

record slider =
  opts :: options
  slides :: "slide list"
  index :: int
  isAnimating :: bool
  changes :: "(int \<times> int) list"
  three :: three_lib
  rounding :: "real \<Rightarrow> real"
  task :: task
  gpu :: session
  untracked :: bool

subsection \<open>Array access and the remainder of JavaScript\<close>

text \<open>\<^verbatim>\<open>this.slides[i]\<close>: \<^verbatim>\<open>undefined\<close> (here \<open>None\<close>) outside the array.\<close>

definition slide_at :: "slide list \<Rightarrow> int \<Rightarrow> slide option" where
  "slide_at xs i = (if 0 \<le> i \<and> i < int (length xs) then Some (xs ! nat i) else None)"

text \<open>
  \<^verbatim>\<open>el.setAttribute('data-active', b)\<close> on the slide element that sits at position \<open>i\<close>;
  the element was read from the array before, so \<open>i\<close> is a position of the array.
\<close>

definition set_active :: "int \<Rightarrow> bool \<Rightarrow> slide list \<Rightarrow> slide list" where
  "set_active i b xs = xs[nat i := (xs ! nat i)\<lparr>data_active := b\<rparr>]"

text \<open>
  \<^verbatim>\<open>a % b\<close> on integers: the remainder has the sign of the dividend. (For \<open>b = 0\<close>
  JavaScript gives \<^verbatim>\<open>NaN\<close>; the constructor refuses an empty slide list, so the
  slider never divides by zero.)
\<close>

definition js_rem :: "int \<Rightarrow> int \<Rightarrow> int" where
  "js_rem a b = sgn a * (\<bar>a\<bar> mod \<bar>b\<bar>)"

subsection \<open>Construction\<close>

definition session0 :: session where
  "session0 = \<lparr>canvas_attached = False, renderer_live = False, geometry_live = False,
     material_live = False, tex0_live = False, tex1_live = False, start = 0,
     progress = Fin 0, fed = []\<rparr>"

text \<open>
  The constructor, given what the selector finds: \<open>None\<close> when there is no root
  element, else for each direct child \<^verbatim>\<open>div\<close> whether it holds an image. \<open>lib\<close> and \<open>r\<close>
  are the Three.js and the rounding of the page the slider lives in.
\<close>

definition constructor ::
    "bool list option \<Rightarrow> options \<Rightarrow> three_lib \<Rightarrow> (real \<Rightarrow> real) \<Rightarrow> js_error + slider" where
  "constructor found os lib r =
     (case found of
        None \<Rightarrow> Inl RootNotFound
      | Some imgs \<Rightarrow>
          if length imgs = 0 then Inl NoSlides
          else Inr \<lparr>opts = os,
                    slides = map (\<lambda>i. \<lparr>has_img = imgs ! i, data_active = (i = 0)\<rparr>) [0..<length imgs],
                    index = 0, isAnimating = False, changes = [], three = lib,
                    rounding = r, task = NoTask, gpu = session0, untracked = False\<rparr>)"

subsection \<open>Activation and notification\<close>

text \<open>
  \<^verbatim>\<open>_activateIndex(idx)\<close>. Each of its two array reads gives \<^verbatim>\<open>undefined\<close> outside the
  array, and calling \<^verbatim>\<open>setAttribute\<close> on that throws a \<^verbatim>\<open>TypeError\<close>; what was written
  before the throw stays written.
\<close>

definition activateIndex :: "int \<Rightarrow> slider \<Rightarrow> outcome \<times> slider" where
  "activateIndex idx s =
     (case slide_at (slides s) (index s) of
        None \<Rightarrow> (Threw TypeError, s)
      | Some _ \<Rightarrow>
          (let s1 = s\<lparr>slides := set_active (index s) False (slides s)\<rparr> in
           case slide_at (slides s1) idx of
             None \<Rightarrow> (Threw TypeError, s1)
           | Some _ \<Rightarrow> (Returned, s1\<lparr>slides := set_active idx True (slides s1), index := idx\<rparr>)))"

text \<open>
  \<^verbatim>\<open>_emitChange(fromIndex, toIndex)\<close> calls \<^verbatim>\<open>this.options.onChange(toIndex, fromIndex)\<close>
  when a function was supplied. The call is recorded; if the callback throws, so does
  \<^verbatim>\<open>_emitChange\<close>.
\<close>

definition emitChange :: "int \<Rightarrow> int \<Rightarrow> slider \<Rightarrow> outcome \<times> slider" where
  "emitChange fromIndex toIndex s =
     (if has_onChange (opts s) then
        (if onChange_throws (opts s) then Threw CallbackError else Returned,
         s\<lparr>changes := changes s @ [(toIndex, fromIndex)]\<rparr>)
      else (Returned, s))"

text \<open>
  The body shared by the \<^verbatim>\<open>done\<close> callback of the fade and the \<^verbatim>\<open>then\<close> handler of the
  GPU transition: activate, clear the flag, notify.
\<close>

definition finalize :: "int \<Rightarrow> int \<Rightarrow> slider \<Rightarrow> outcome \<times> slider" where
  "finalize fromIndex toIndex s =
     (case activateIndex toIndex s of
        (Threw e, s1) \<Rightarrow> (Threw e, s1)
      | (Returned, s1) \<Rightarrow> emitChange fromIndex toIndex (s1\<lparr>isAnimating := False\<rparr>))"

subsection \<open>The CSS fade\<close>

text \<open>
  \<^verbatim>\<open>_fadeImages\<close> up to its return: both slides are marked active and the timeout is
  registered.
\<close>

definition fadeImages :: "int \<Rightarrow> int \<Rightarrow> slider \<Rightarrow> slider" where
  "fadeImages f t s =
     s\<lparr>slides := set_active f True (set_active t True (slides s)), task := FadeTimer f t\<rparr>"

text \<open>
  The timeout callback of \<^verbatim>\<open>_fadeImages\<close>: the markers are finalised and \<^verbatim>\<open>done()\<close>
  runs. A throw inside it ends the callback and leaves the state as it is then.
\<close>

definition fade_timeout :: "int \<Rightarrow> int \<Rightarrow> slider \<Rightarrow> slider" where
  "fade_timeout f t s =
     snd (finalize f t
       (s\<lparr>slides := set_active t True (set_active f False (slides s)), task := NoTask\<rparr>))"

subsection \<open>The GPU transition\<close>

text \<open>
  The numbers of the frame callback, with \<open>r\<close> the rounding. \<^verbatim>\<open>a / b\<close> is the rounded
  quotient, and with \<open>b = 0\<close> (taken as \<open>+0\<close>) an infinity or \<^verbatim>\<open>NaN\<close>;
  \<^verbatim>\<open>Math.min(1, x)\<close> keeps \<^verbatim>\<open>NaN\<close> and the negative infinity; \<^verbatim>\<open>x < 1\<close> is false on
  \<^verbatim>\<open>NaN\<close>.
\<close>

definition js_div :: "(real \<Rightarrow> real) \<Rightarrow> real \<Rightarrow> real \<Rightarrow> jsnum" where
  "js_div r a b =
     (if b \<noteq> 0 then Fin (r (a / b)) else if 0 < a then PosInf else if a < 0 then NegInf else NaN)"

definition js_min1 :: "jsnum \<Rightarrow> jsnum" where
  "js_min1 x = (case x of Fin r \<Rightarrow> Fin (min 1 r) | PosInf \<Rightarrow> Fin 1 | NegInf \<Rightarrow> NegInf | NaN \<Rightarrow> NaN)"

definition js_lt1 :: "jsnum \<Rightarrow> bool" where
  "js_lt1 x = (case x of Fin r \<Rightarrow> r < 1 | PosInf \<Rightarrow> False | NegInf \<Rightarrow> True | NaN \<Rightarrow> False)"

text \<open>
  \<^verbatim>\<open>const t = Math.min(1, (now - start) / dur)\<close>: the difference is rounded, then the
  quotient.
\<close>

definition progress_at :: "(real \<Rightarrow> real) \<Rightarrow> real \<Rightarrow> real \<Rightarrow> real \<Rightarrow> jsnum" where
  "progress_at r st dur now = js_min1 (js_div r (r (now - st)) dur)"

text \<open>
  \<^verbatim>\<open>_webglTransition\<close> up to its first \<^verbatim>\<open>await\<close>: without Three.js, or without one of
  the required components, it returns a rejected promise and has created nothing;
  otherwise the canvas is appended to the slide, the renderer and the geometry are
  created, and the two texture loads are awaited. (The constructors of Three.js are
  taken to return.)
\<close>

definition webgl_begin :: "int \<Rightarrow> int \<Rightarrow> slider \<Rightarrow> settled \<times> slider" where
  "webgl_begin f t s =
     (case three s of
        ThreeAbsent \<Rightarrow> (Rejected ThreeNotFound, s)
      | ThreeIncomplete \<Rightarrow> (Rejected ComponentsMissing, s)
      | ThreeComplete \<Rightarrow>
          (Pending,
           s\<lparr>gpu := session0\<lparr>canvas_attached := True, renderer_live := True, geometry_live := True\<rparr>,
             task := TextureLoad f t\<rparr>))"

text \<open>
  \<^verbatim>\<open>_webglTransition\<close> from the \<^verbatim>\<open>await Promise.all\<close> on, given which of the two loads
  succeeded, the reading of \<^verbatim>\<open>performance.now()\<close> and whether the first
  \<^verbatim>\<open>requestAnimationFrame\<close> returns. A failed load lands in the outer \<^verbatim>\<open>catch\<close>, which
  only rejects. Otherwise the material is created, both slides are marked active and the
  first frame is requested; if that request throws, the canvas is removed and the
  promise is rejected.
\<close>

definition webgl_loaded :: "bool \<Rightarrow> bool \<Rightarrow> real \<Rightarrow> bool \<Rightarrow> int \<Rightarrow> int \<Rightarrow> slider \<Rightarrow> settled \<times> slider" where
  "webgl_loaded ok0 ok1 now raf_ok f t s =
     (let g = (gpu s)\<lparr>tex0_live := ok0, tex1_live := ok1\<rparr> in
      if \<not> (ok0 \<and> ok1) then (Rejected TextureLoadError, s\<lparr>gpu := g, task := NoTask\<rparr>)
      else
        (let g1 = g\<lparr>material_live := True, start := now, progress := Fin 0\<rparr>;
             s1 = s\<lparr>slides := set_active f True (set_active t True (slides s))\<rparr>
         in if raf_ok then (Pending, s1\<lparr>gpu := g1, task := FrameLoop f t\<rparr>)
            else (Rejected RafError, s1\<lparr>gpu := g1\<lparr>canvas_attached := False\<rparr>, task := NoTask\<rparr>)))"

text \<open>
  The frame callback \<^verbatim>\<open>step(now)\<close>, given whether \<^verbatim>\<open>renderer.render\<close> returns. A throw
  is caught: the canvas is removed and the promise is rejected. With \<open>t < 1\<close> the next
  frame is requested. Otherwise renderer, geometry, material and textures are disposed
  (the dispose calls are taken to return), the canvas is removed, the markers are
  finalised and the promise is resolved. \<open>task := NoTask\<close> in the three functions of
  this section says that the session has no callback registered any more.
\<close>

definition webgl_step :: "real \<Rightarrow> bool \<Rightarrow> int \<Rightarrow> int \<Rightarrow> slider \<Rightarrow> settled \<times> slider" where
  "webgl_step now render_ok f t s =
     (let g = gpu s;
          tv = progress_at (rounding s) (start g) (duration (opts s)) now;
          g1 = g\<lparr>progress := tv, fed := fed g @ [tv]\<rparr>
      in if \<not> render_ok then
           (Rejected RenderError, s\<lparr>gpu := g1\<lparr>canvas_attached := False\<rparr>, task := NoTask\<rparr>)
         else if js_lt1 tv then (Pending, s\<lparr>gpu := g1\<rparr>)
         else
           (Resolved,
            s\<lparr>gpu := g1\<lparr>renderer_live := False, geometry_live := False, material_live := False,
                        tex0_live := False, tex1_live := False, canvas_attached := False\<rparr>,
              slides := set_active t True (set_active f False (slides s)),
              task := NoTask\<rparr>))"

subsection \<open>Navigation\<close>

text \<open>
  A promise of \<^verbatim>\<open>_webglTransition\<close> that has settled leaves its handlers to a later
  microtask; a pending one leaves the callback of the session registered.
\<close>

definition queue_reaction :: "int \<Rightarrow> int \<Rightarrow> settled \<times> slider \<Rightarrow> slider" where
  "queue_reaction f t r =
     (case r of
        (Pending, s) \<Rightarrow> s
      | (Resolved, s) \<Rightarrow> s\<lparr>task := Reaction f t Resolved\<rparr>
      | (Rejected e, s) \<Rightarrow> s\<lparr>task := Reaction f t (Rejected e)\<rparr>)"

text \<open>
  The \<^verbatim>\<open>then\<close> and \<^verbatim>\<open>catch\<close> handlers that \<^verbatim>\<open>show\<close> chains to the promise of
  \<^verbatim>\<open>_webglTransition\<close>, run on the settled promise. A resolved promise runs the \<^verbatim>\<open>then\<close>
  handler; if that throws, the promise it made is rejected and the \<^verbatim>\<open>catch\<close> handler is
  owed in turn. A rejected promise runs the \<^verbatim>\<open>catch\<close> handler, which starts the fade.
\<close>

definition on_settled :: "int \<Rightarrow> int \<Rightarrow> settled \<times> slider \<Rightarrow> slider" where
  "on_settled f t r =
     (case r of
        (Pending, s) \<Rightarrow> s
      | (Resolved, s) \<Rightarrow>
          (case finalize f t s of
             (Returned, s1) \<Rightarrow> s1
           | (Threw e, s1) \<Rightarrow> s1\<lparr>task := Reaction f t (Rejected e)\<rparr>)
      | (Rejected e, s) \<Rightarrow> fadeImages f t s)"

text \<open>
  \<^verbatim>\<open>show(toIndex)\<close>. \<^verbatim>\<open>_getDirectImg\<close> throws a \<^verbatim>\<open>TypeError\<close> on \<^verbatim>\<open>undefined\<close>, that is
  on a slide read outside the array. When \<^verbatim>\<open>show\<close> returns from the GPU branch, the
  promise is pending, or already rejected with its handlers still to run.
\<close>

definition show_slide :: "int \<Rightarrow> slider \<Rightarrow> outcome \<times> slider" where
  "show_slide toIndex s =
     (if isAnimating s \<or> toIndex = index s then (Returned, s)
      else
        (let fromIndex = index s in
         case slide_at (slides s) fromIndex of
           None \<Rightarrow> (Threw TypeError, s)
         | Some fromSlide \<Rightarrow>
             (case slide_at (slides s) toIndex of
                None \<Rightarrow> (Threw TypeError, s)
              | Some toSlide \<Rightarrow>
                  if \<not> has_img fromSlide \<or> \<not> has_img toSlide then activateIndex toIndex s
                  else
                    (let s1 = s\<lparr>isAnimating := True\<rparr> in
                     if animation (opts s) = ''none'' then (Returned, fadeImages fromIndex toIndex s1)
                     else (Returned, queue_reaction fromIndex toIndex (webgl_begin fromIndex toIndex s1))))))"

text \<open>
  The index that \<^verbatim>\<open>next()\<close> and \<^verbatim>\<open>prev()\<close> pass on:
  \<^verbatim>\<open>(to + this.slides.length) % this.slides.length\<close> with \<open>to\<close> the index plus or minus one.
\<close>

definition next_index :: "int \<Rightarrow> int \<Rightarrow> int" where
  "next_index n i = js_rem ((i + 1) + n) n"

definition prev_index :: "int \<Rightarrow> int \<Rightarrow> int" where
  "prev_index n i = js_rem ((i - 1) + n) n"

definition next_slide :: "slider \<Rightarrow> outcome \<times> slider" where
  "next_slide s =
     (let n = int (length (slides s)); to = index s + 1 in
      if to \<ge> n \<and> \<not> loop (opts s) then (Returned, s)
      else show_slide (next_index n (index s)) s)"

definition prev_slide :: "slider \<Rightarrow> outcome \<times> slider" where
  "prev_slide s =
     (let n = int (length (slides s)); to = index s - 1 in
      if to < 0 \<and> \<not> loop (opts s) then (Returned, s)
      else show_slide (prev_index n (index s)) s)"

subsection \<open>Runs\<close>

text \<open>
  What can happen to a slider: a call of its interface, or the browser running the
  callback it owes. The timer can fire, the loads can end, a frame can come and the
  handlers of a settled promise can run only while the matching callback is owed;
  where it is not, the event has no effect.
\<close>

datatype event =
  Show int | Next | Prev
  | TimerFired
  | TexturesLoaded bool bool real bool
  | Frame real bool
  | RunHandlers

text \<open>
  A call that starts a transition while a callback is still owed registers a second
  callback beside it. That happens only with the flag clear, after a throw of the
  \<^verbatim>\<open>then\<close> handler; the record is marked then.
\<close>

definition track :: "slider \<Rightarrow> slider \<Rightarrow> slider" where
  "track s s1 =
     (if task s \<noteq> NoTask \<and> \<not> isAnimating s \<and> isAnimating s1 then s1\<lparr>untracked := True\<rparr> else s1)"

definition step :: "event \<Rightarrow> slider \<Rightarrow> slider" where
  "step e s =
     (case e of
        Show i \<Rightarrow> track s (snd (show_slide i s))
      | Next \<Rightarrow> track s (snd (next_slide s))
      | Prev \<Rightarrow> track s (snd (prev_slide s))
      | TimerFired \<Rightarrow> (case task s of FadeTimer f t \<Rightarrow> fade_timeout f t s | _ \<Rightarrow> s)
      | TexturesLoaded ok0 ok1 now raf_ok \<Rightarrow>
          (case task s of
             TextureLoad f t \<Rightarrow> queue_reaction f t (webgl_loaded ok0 ok1 now raf_ok f t s)
           | _ \<Rightarrow> s)
      | Frame now render_ok \<Rightarrow>
          (case task s of
             FrameLoop f t \<Rightarrow> queue_reaction f t (webgl_step now render_ok f t s)
           | _ \<Rightarrow> s)
      | RunHandlers \<Rightarrow>
          (case task s of
             Reaction f t r \<Rightarrow> on_settled f t (r, s\<lparr>task := NoTask\<rparr>)
           | _ \<Rightarrow> s))"

fun run :: "event list \<Rightarrow> slider \<Rightarrow> slider" where
  "run [] s = s"
| "run (e # es) s = run es (step e s)"

subsection \<open>Notions used in the statements\<close>

text \<open>The positions of the slides that carry the active marker, in order.\<close>

definition active_indices :: "slider \<Rightarrow> nat list" where
  "active_indices s = filter (\<lambda>i. data_active (slides s ! i)) [0..<length (slides s)]"

text \<open>The index the slider shows, or is on its way to.\<close>

definition heading :: "slider \<Rightarrow> int" where
  "heading s =
     (case task s of
        NoTask \<Rightarrow> index s | FadeTimer f t \<Rightarrow> t | TextureLoad f t \<Rightarrow> t | FrameLoop f t \<Rightarrow> t
      | Reaction f t r \<Rightarrow> t)"

definition in_range :: "slider \<Rightarrow> int \<Rightarrow> bool" where
  "in_range s i = (0 \<le> i \<and> i < int (length (slides s)))"



text \<open>
  The value of \<^verbatim>\<open>t\<close> in the frame callback when the duration is not zero: the rounded
  ratio of the rounded elapsed time to the duration, cut off at 1.
\<close>

definition frame_value :: "(real \<Rightarrow> real) \<Rightarrow> real \<Rightarrow> real \<Rightarrow> real \<Rightarrow> real" where
  "frame_value r st dur now = min 1 (r (r (now - st) / dur))"




text \<open>
  What the callbacks keep of a slider that moves to \<open>T\<close>: both indices are positions of
  the slide list, the slider is at \<open>T\<close> or on its way there, and it is at \<open>T\<close> whenever
  the flag is clear.
\<close>

definition aimed :: "int \<Rightarrow> slider \<Rightarrow> bool" where
  "aimed T s =
     (in_range s (index s) \<and> in_range s T \<and> heading s = T
      \<and> (\<not> isAnimating s \<longrightarrow> index s = T)
      \<and> (task s = NoTask \<longrightarrow> \<not> isAnimating s)
      \<and> (\<forall>f t. task s \<noteq> Reaction f t Pending))"

text \<open>
  Sliders for the examples: three slides with images, two where the second has none,
  and one slide. Their callback returns. Their rounding is exact; the timestamps of the
  examples are chosen so that double arithmetic is exact on them. \<open>demo_throwing\<close> is the
  three-slide slider with a callback that throws.
\<close>

definition demo_opts :: "string \<Rightarrow> bool \<Rightarrow> options" where
  "demo_opts a l =
     \<lparr>animation = a, duration = 300, loop = l, has_onChange = True, onChange_throws = False\<rparr>"

definition demo3 :: "string \<Rightarrow> bool \<Rightarrow> three_lib \<Rightarrow> slider" where
  "demo3 a l lib = projr (constructor (Some [True, True, True]) (demo_opts a l) lib (\<lambda>x. x))"

definition demo2 :: slider where
  "demo2 = projr (constructor (Some [True, False]) (demo_opts ''none'' True) ThreeComplete (\<lambda>x. x))"

definition demo1 :: "bool \<Rightarrow> slider" where
  "demo1 l = projr (constructor (Some [True]) (demo_opts ''wave'' l) ThreeComplete (\<lambda>x. x))"

definition demo_throwing :: slider where
  "demo_throwing =
     projr (constructor (Some [True, True, True])
       ((demo_opts ''wave'' True)\<lparr>onChange_throws := True\<rparr>) ThreeComplete (\<lambda>x. x))"

section \<open>Basic facts\<close>

lemma length_set_active [simp]: "length (set_active i b xs) = length xs"
  by (simp add: set_active_def)


lemma slide_at_None: "slide_at xs i = None \<longleftrightarrow> \<not> (0 \<le> i \<and> i < int (length xs))"
  by (simp add: slide_at_def)


lemma demo3_eq:
  "demo3 a l lib =
     \<lparr>opts = demo_opts a l,
      slides = [\<lparr>has_img = True, data_active = True\<rparr>, \<lparr>has_img = True, data_active = False\<rparr>,
                \<lparr>has_img = True, data_active = False\<rparr>],
      index = 0, isAnimating = False, changes = [], three = lib, rounding = (\<lambda>x. x),
      task = NoTask, gpu = session0, untracked = False\<rparr>"
  by (simp add: demo3_def constructor_def upt_rec)

lemma demo2_eq:
  "demo2 =
     \<lparr>opts = demo_opts ''none'' True,
      slides = [\<lparr>has_img = True, data_active = True\<rparr>, \<lparr>has_img = False, data_active = False\<rparr>],
      index = 0, isAnimating = False, changes = [], three = ThreeComplete, rounding = (\<lambda>x. x),
      task = NoTask, gpu = session0, untracked = False\<rparr>"
  by (simp add: demo2_def constructor_def upt_rec)

lemma demo1_eq:
  "demo1 l =
     \<lparr>opts = demo_opts ''wave'' l,
      slides = [\<lparr>has_img = True, data_active = True\<rparr>],
      index = 0, isAnimating = False, changes = [], three = ThreeComplete, rounding = (\<lambda>x. x),
      task = NoTask, gpu = session0, untracked = False\<rparr>"
  by (simp add: demo1_def constructor_def upt_rec)

lemma demo_throwing_eq:
  "demo_throwing =
     \<lparr>opts = (demo_opts ''wave'' True)\<lparr>onChange_throws := True\<rparr>,
      slides = [\<lparr>has_img = True, data_active = True\<rparr>, \<lparr>has_img = True, data_active = False\<rparr>,
                \<lparr>has_img = True, data_active = False\<rparr>],
      index = 0, isAnimating = False, changes = [], three = ThreeComplete, rounding = (\<lambda>x. x),
      task = NoTask, gpu = session0, untracked = False\<rparr>"
  by (simp add: demo_throwing_def constructor_def upt_rec)

lemmas eval_defs =
  step_def track_def show_slide_def slide_at_def demo_opts_def fadeImages_def set_active_def
  fade_timeout_def finalize_def activateIndex_def emitChange_def webgl_begin_def
  queue_reaction_def on_settled_def webgl_loaded_def webgl_step_def session0_def
  progress_at_def js_div_def js_min1_def js_lt1_def next_slide_def prev_slide_def
  next_index_def prev_index_def js_rem_def Let_def

lemma run_fade:
  "run [Show 1] (demo3 ''none'' l lib) =
     \<lparr>opts = demo_opts ''none'' l,
      slides = [\<lparr>has_img = True, data_active = True\<rparr>, \<lparr>has_img = True, data_active = True\<rparr>,
                \<lparr>has_img = True, data_active = False\<rparr>],
      index = 0, isAnimating = True, changes = [], three = lib, rounding = (\<lambda>x. x),
      task = FadeTimer 0 1, gpu = session0, untracked = False\<rparr>"
  by (simp add: demo3_eq eval_defs)

lemma run_fade_done:
  "run [Show 1, TimerFired] (demo3 ''none'' l lib) =
     \<lparr>opts = demo_opts ''none'' l,
      slides = [\<lparr>has_img = True, data_active = False\<rparr>, \<lparr>has_img = True, data_active = True\<rparr>,
                \<lparr>has_img = True, data_active = False\<rparr>],
      index = 1, isAnimating = False, changes = [(1, 0)], three = lib, rounding = (\<lambda>x. x),
      task = NoTask, gpu = session0, untracked = False\<rparr>"
  by (simp add: demo3_eq eval_defs)

lemma run_gpu_begin:
  "run [Show 1] (demo3 ''wave'' True ThreeComplete) =
     \<lparr>opts = demo_opts ''wave'' True,
      slides = [\<lparr>has_img = True, data_active = True\<rparr>, \<lparr>has_img = True, data_active = False\<rparr>,
                \<lparr>has_img = True, data_active = False\<rparr>],
      index = 0, isAnimating = True, changes = [], three = ThreeComplete, rounding = (\<lambda>x. x),
      task = TextureLoad 0 1,
      gpu = session0\<lparr>canvas_attached := True, renderer_live := True, geometry_live := True\<rparr>,
      untracked = False\<rparr>"
  by (simp add: demo3_eq eval_defs)

lemma run_gpu_frames:
  "run [Show 1, TexturesLoaded True True 1000 True] (demo3 ''wave'' True ThreeComplete) =
     \<lparr>opts = demo_opts ''wave'' True,
      slides = [\<lparr>has_img = True, data_active = True\<rparr>, \<lparr>has_img = True, data_active = True\<rparr>,
                \<lparr>has_img = True, data_active = False\<rparr>],
      index = 0, isAnimating = True, changes = [], three = ThreeComplete, rounding = (\<lambda>x. x),
      task = FrameLoop 0 1,
      gpu = \<lparr>canvas_attached = True, renderer_live = True, geometry_live = True,
             material_live = True, tex0_live = True, tex1_live = True, start = 1000,
             progress = Fin 0, fed = []\<rparr>,
      untracked = False\<rparr>"
  by (simp add: demo3_eq eval_defs)

lemma run_gpu_failed:
  "run [Show 1, TexturesLoaded False True 1000 True, RunHandlers, TimerFired]
       (demo3 ''wave'' True ThreeComplete) =
     \<lparr>opts = demo_opts ''wave'' True,
      slides = [\<lparr>has_img = True, data_active = False\<rparr>, \<lparr>has_img = True, data_active = True\<rparr>,
                \<lparr>has_img = True, data_active = False\<rparr>],
      index = 1, isAnimating = False, changes = [(1, 0)], three = ThreeComplete,
      rounding = (\<lambda>x. x), task = NoTask,
      gpu = session0\<lparr>canvas_attached := True, renderer_live := True, geometry_live := True,
              tex1_live := True\<rparr>,
      untracked = False\<rparr>"
  by (simp add: demo3_eq eval_defs)

lemma run_absent:
  "run [Show 1] (demo3 ''wave'' True ThreeAbsent) =
     \<lparr>opts = demo_opts ''wave'' True,
      slides = [\<lparr>has_img = True, data_active = True\<rparr>, \<lparr>has_img = True, data_active = False\<rparr>,
                \<lparr>has_img = True, data_active = False\<rparr>],
      index = 0, isAnimating = True, changes = [], three = ThreeAbsent, rounding = (\<lambda>x. x),
      task = Reaction 0 1 (Rejected ThreeNotFound), gpu = session0, untracked = False\<rparr>"
  by (simp add: demo3_eq eval_defs)

lemma run_resolved:
  "run [Show 1, TexturesLoaded True True 1000 True, Frame 1300 True]
       (demo3 ''wave'' True ThreeComplete) =
     \<lparr>opts = demo_opts ''wave'' True,
      slides = [\<lparr>has_img = True, data_active = False\<rparr>, \<lparr>has_img = True, data_active = True\<rparr>,
                \<lparr>has_img = True, data_active = False\<rparr>],
      index = 0, isAnimating = True, changes = [], three = ThreeComplete, rounding = (\<lambda>x. x),
      task = Reaction 0 1 Resolved,
      gpu = \<lparr>canvas_attached = False, renderer_live = False, geometry_live = False,
             material_live = False, tex0_live = False, tex1_live = False, start = 1000,
             progress = Fin 1, fed = [Fin 1]\<rparr>,
      untracked = False\<rparr>"
  by (simp add: demo3_eq eval_defs)

lemma run_throwing:
  "run [Show 1, TexturesLoaded True True 1000 True, Frame 1300 True, RunHandlers, RunHandlers]
       demo_throwing =
     \<lparr>opts = (demo_opts ''wave'' True)\<lparr>onChange_throws := True\<rparr>,
      slides = [\<lparr>has_img = True, data_active = True\<rparr>, \<lparr>has_img = True, data_active = True\<rparr>,
                \<lparr>has_img = True, data_active = False\<rparr>],
      index = 1, isAnimating = False, changes = [(1, 0)], three = ThreeComplete,
      rounding = (\<lambda>x. x), task = FadeTimer 0 1,
      gpu = \<lparr>canvas_attached = False, renderer_live = False, geometry_live = False,
             material_live = False, tex0_live = False, tex1_live = False, start = 1000,
             progress = Fin 1, fed = [Fin 1]\<rparr>,
      untracked = False\<rparr>"
  by (simp add: demo_throwing_eq eval_defs)

lemma run_append: "run (es @ es') s = run es' (run es s)"
  by (induction es arbitrary: s) simp_all






section \<open>The invariant of the controller\<close>












lemma keep_activateIndex [simp]:
  "opts (snd (activateIndex t s)) = opts s"
  "rounding (snd (activateIndex t s)) = rounding s"
  "untracked (snd (activateIndex t s)) = untracked s"
  "gpu (snd (activateIndex t s)) = gpu s"
  "task (snd (activateIndex t s)) = task s"
  by (simp_all add: activateIndex_def Let_def split: option.splits)

lemma keep_finalize [simp]:
  "opts (snd (finalize f t s)) = opts s"
  "rounding (snd (finalize f t s)) = rounding s"
  "untracked (snd (finalize f t s)) = untracked s"
  "gpu (snd (finalize f t s)) = gpu s"
  "task (snd (finalize f t s)) = task s"
  using keep_activateIndex [of t s]
  by (cases "activateIndex t s"; cases "fst (activateIndex t s)";
      auto simp: finalize_def emitChange_def)+

lemma keep_queue_reaction [simp]:
  "opts (queue_reaction f t (r, s)) = opts s"
  "rounding (queue_reaction f t (r, s)) = rounding s"
  "untracked (queue_reaction f t (r, s)) = untracked s"
  "gpu (queue_reaction f t (r, s)) = gpu s"
  by (cases r; simp add: queue_reaction_def)+

lemma keep_on_settled [simp]:
  "opts (on_settled f t (r, s)) = opts s"
  "rounding (on_settled f t (r, s)) = rounding s"
  "untracked (on_settled f t (r, s)) = untracked s"
  "gpu (on_settled f t (r, s)) = gpu s"
  using keep_finalize [of f t s]
  by (cases r; cases "finalize f t s"; cases "fst (finalize f t s)";
      auto simp: on_settled_def fadeImages_def)+

lemma keep_show [simp]:
  "opts (snd (show_slide t s)) = opts s"
  "rounding (snd (show_slide t s)) = rounding s"
  "untracked (snd (show_slide t s)) = untracked s"
  using keep_activateIndex [of t s]
  by (auto simp: show_slide_def fadeImages_def queue_reaction_def webgl_begin_def Let_def
      split: option.splits three_lib.splits)

lemma keep_track [simp]: "opts (track s s1) = opts s1" "rounding (track s s1) = rounding s1"
  by (simp_all add: track_def)

lemma keep_step [simp]:
  "opts (step e s) = opts s" "rounding (step e s) = rounding s"
proof -
  show "opts (step e s) = opts s"
  proof (cases e)
    case (TexturesLoaded ok0 ok1 now raf_ok)
    then show ?thesis
      by (cases "task s") (auto simp: step_def webgl_loaded_def queue_reaction_def Let_def)
  next
    case (Frame now ok)
    then show ?thesis
      by (cases "task s") (auto simp: step_def webgl_step_def queue_reaction_def Let_def)
  next
    case TimerFired
    then show ?thesis
      by (cases "task s") (simp_all add: step_def fade_timeout_def)
  next
    case RunHandlers
    then show ?thesis
      by (cases "task s") (simp_all add: step_def)
  qed (simp_all add: step_def next_slide_def prev_slide_def Let_def)
  show "rounding (step e s) = rounding s"
  proof (cases e)
    case (TexturesLoaded ok0 ok1 now raf_ok)
    then show ?thesis
      by (cases "task s") (auto simp: step_def webgl_loaded_def queue_reaction_def Let_def)
  next
    case (Frame now ok)
    then show ?thesis
      by (cases "task s") (auto simp: step_def webgl_step_def queue_reaction_def Let_def)
  next
    case TimerFired
    then show ?thesis
      by (cases "task s") (simp_all add: step_def fade_timeout_def)
  next
    case RunHandlers
    then show ?thesis
      by (cases "task s") (simp_all add: step_def)
  qed (simp_all add: step_def next_slide_def prev_slide_def Let_def)
qed









section \<open>Moving to a target\<close>







lemma aimed_idle: "aimed T s \<Longrightarrow> task s = NoTask \<Longrightarrow> index s = T \<and> \<not> isAnimating s"
  by (simp add: aimed_def)












section \<open>The frame loop\<close>








text \<open>
  \<^verbatim>\<open>Math.min\<close> bounds the value from above only: where the rounded ratio is negative, as
  for a frame stamped before the start reading under exact rounding, the value is that
  negative ratio.
\<close>

lemma frame_value_negative:
  "r (r (now - st) / dur) < 0 \<Longrightarrow> frame_value r st dur now = r (r (now - st) / dur)"
  by (simp add: frame_value_def)







section \<open>The claims about the controller\<close>

subsection \<open>Markers\<close>





text \<open>
  What the amended claim leaves out: a callback that throws in the \<^verbatim>\<open>then\<close> handler. The
  \<^verbatim>\<open>catch\<close> handler then starts the fade although the transition is finished: the flag
  is clear, two slides are marked, a timeout is owed, and its \<^verbatim>\<open>done\<close> will notify a
  second time.
\<close>

lemma throwing_callback_state:
  "\<not> isAnimating (run [Show 1, TexturesLoaded True True 1000 True, Frame 1300 True,
        RunHandlers, RunHandlers] demo_throwing)
   \<and> set (active_indices (run [Show 1, TexturesLoaded True True 1000 True, Frame 1300 True,
        RunHandlers, RunHandlers] demo_throwing)) = {0, 1}
   \<and> task (run [Show 1, TexturesLoaded True True 1000 True, Frame 1300 True,
        RunHandlers, RunHandlers] demo_throwing) = FadeTimer 0 1
   \<and> changes (run ([Show 1, TexturesLoaded True True 1000 True, Frame 1300 True,
        RunHandlers, RunHandlers] @ [TimerFired]) demo_throwing) = [(1, 0), (1, 0)]"
  unfolding run_append run_throwing
  by (simp add: active_indices_def upt_rec eval_defs)

text \<open>
  A call of \<^verbatim>\<open>show\<close> in that state starts a transition beside the owed timeout; from
  there on the record does not hold every owed callback.
\<close>

lemma throwing_callback_untracked:
  "untracked (run ([Show 1, TexturesLoaded True True 1000 True, Frame 1300 True,
        RunHandlers, RunHandlers] @ [Show 2]) demo_throwing)"
  unfolding run_append run_throwing
  by (simp add: eval_defs)

subsection \<open>Navigation requests\<close>

text \<open>
  C6. \<^verbatim>\<open>show(i)\<close> called while the animating flag is set, or with \<open>i\<close> the current index,
  returns and leaves the whole slider as it was: index, flag, markers, owed callback
  and notifications.
\<close>

theorem show_ignored:
  "isAnimating s \<or> i = index s \<Longrightarrow> show_slide i s = (Returned, s)"
  by (simp add: show_slide_def)

theorem show_ignored_witness:
  "isAnimating (run [Show 1] (demo3 ''none'' True ThreeComplete))
   \<and> show_slide 2 (run [Show 1] (demo3 ''none'' True ThreeComplete))
       = (Returned, run [Show 1] (demo3 ''none'' True ThreeComplete))
   \<and> show_slide 0 (demo3 ''none'' True ThreeComplete) = (Returned, demo3 ''none'' True ThreeComplete)"
  using show_ignored [of "run [Show 1] (demo3 ''none'' True ThreeComplete)" 2]
    show_ignored [of "demo3 ''none'' True ThreeComplete" 0]
  unfolding run_fade by (simp add: demo3_eq)










text \<open>
  C9. On a slider with one slide, at index 0, \<^verbatim>\<open>next()\<close> and \<^verbatim>\<open>prev()\<close> return and leave
  the whole slider as it was, whatever the loop option says.
\<close>

theorem single_slide_noop:
  "length (slides s) = 1 \<Longrightarrow> index s = 0 \<Longrightarrow>
     next_slide s = (Returned, s) \<and> prev_slide s = (Returned, s)"
  by (simp add: next_slide_def prev_slide_def next_index_def prev_index_def js_rem_def show_slide_def)

theorem single_slide_noop_witness:
  "length (slides (demo1 True)) = 1 \<and> loop (opts (demo1 True)) \<and> \<not> loop (opts (demo1 False))
   \<and> next_slide (demo1 True) = (Returned, demo1 True)
   \<and> prev_slide (demo1 True) = (Returned, demo1 True)
   \<and> next_slide (demo1 False) = (Returned, demo1 False)
   \<and> prev_slide (demo1 False) = (Returned, demo1 False)"
proof -
  have h: "length (slides (demo1 True)) = 1" "index (demo1 True) = 0"
    "length (slides (demo1 False)) = 1" "index (demo1 False) = 0"
    by (simp_all add: demo1_eq)
  have l: "loop (opts (demo1 True))" "\<not> loop (opts (demo1 False))"
    by (simp_all add: demo1_eq demo_opts_def)
  from single_slide_noop [OF h(1) h(2)] single_slide_noop [OF h(3) h(4)] h l show ?thesis
    by simp
qed

text \<open>
  C10, as amended. For an index \<open>i\<close> outside the slide list and different from the
  current index: while the animating flag is clear, \<^verbatim>\<open>show(i)\<close> throws a \<^verbatim>\<open>TypeError\<close>
  before it sets the flag and leaves the whole slider as it was; while the flag is set,
  \<^verbatim>\<open>show(i)\<close> returns without throwing, and also leaves the slider as it was.
\<close>

theorem show_out_of_range:
  assumes "\<not> in_range s i" and "i \<noteq> index s"
  shows "show_slide i s = (if isAnimating s then (Returned, s) else (Threw TypeError, s))"
  using assms by (auto simp: show_slide_def slide_at_def in_range_def Let_def split: option.splits)

theorem show_out_of_range_witness:
  "\<not> in_range (demo3 ''none'' True ThreeAbsent) 5
   \<and> show_slide 5 (demo3 ''none'' True ThreeAbsent) = (Threw TypeError, demo3 ''none'' True ThreeAbsent)
   \<and> show_slide (- 1) (demo3 ''none'' True ThreeAbsent) = (Threw TypeError, demo3 ''none'' True ThreeAbsent)"
proof -
  let ?D = "demo3 ''none'' True ThreeAbsent"
  have h: "\<not> in_range ?D 5" "5 \<noteq> index ?D" "\<not> in_range ?D (- 1)" "- 1 \<noteq> index ?D"
    "\<not> isAnimating ?D"
    by (simp_all add: demo3_eq in_range_def)
  from show_out_of_range [OF h(1) h(2)] show_out_of_range [OF h(3) h(4)] h show ?thesis
    by simp
qed

text \<open>
  The claim as it was stated fails while a transition is in flight: after \<^verbatim>\<open>show(1)\<close>
  has started the fade on three slides, \<^verbatim>\<open>show(7)\<close> returns and throws nothing.
\<close>

theorem show_out_of_range_counterexample:
  "isAnimating (run [Show 1] (demo3 ''none'' True ThreeAbsent))
   \<and> \<not> in_range (run [Show 1] (demo3 ''none'' True ThreeAbsent)) 7
   \<and> 7 \<noteq> index (run [Show 1] (demo3 ''none'' True ThreeAbsent))
   \<and> show_slide 7 (run [Show 1] (demo3 ''none'' True ThreeAbsent))
       = (Returned, run [Show 1] (demo3 ''none'' True ThreeAbsent))
   \<and> fst (show_slide 7 (run [Show 1] (demo3 ''none'' True ThreeAbsent))) \<noteq> Threw TypeError"
  unfolding run_fade by (simp add: show_slide_def in_range_def)

subsection \<open>Where the code departs from the claims\<close>

lemma emitChange_order:
  "has_onChange (opts s) \<Longrightarrow>
     changes (snd (emitChange fromIndex toIndex s)) = changes s @ [(toIndex, fromIndex)]"
  by (simp add: emitChange_def)

text \<open>
  C1. Three slides with images, \<^verbatim>\<open>animation: 'none'\<close>, a callback supplied. \<^verbatim>\<open>show(1)\<close> from
  index 0, then the timeout of the fade: the transition from 0 to 1 is complete and the
  callback was called once, as \<^verbatim>\<open>onChange(1, 0)\<close>: the target first, the origin second.
\<close>

theorem change_callback_arguments:
  "index (demo3 ''none'' True ThreeAbsent) = 0
   \<and> index (run [Show 1, TimerFired] (demo3 ''none'' True ThreeAbsent)) = 1
   \<and> changes (run [Show 1, TimerFired] (demo3 ''none'' True ThreeAbsent)) = [(1, 0)]"
  unfolding run_fade_done by (simp add: demo3_eq)

theorem change_callback_arguments_witness:
  "changes (run [Show 1, TimerFired] (demo3 ''none'' True ThreeAbsent)) \<noteq> [(0, 1)]"
  using change_callback_arguments by simp

text \<open>
  C2. Three slides with images, \<^verbatim>\<open>animation: 'wave'\<close>, Three.js complete. After
  \<^verbatim>\<open>show(1)\<close> the session waits for its textures. If the load of the first image fails, the
  promise is rejected while the canvas is still attached and the renderer, the geometry
  and the second texture are still alive. If both loads succeed and \<^verbatim>\<open>renderer.render\<close>
  throws in the first frame, the promise is rejected with the canvas removed, but with
  renderer, geometry, material and both textures still alive. After the failed load the
  \<^verbatim>\<open>catch\<close> handler and its fallback fade complete the transition, and the idle slider
  still has the canvas attached and the renderer alive.
\<close>

theorem gpu_failure_keeps_resources:
  "task (run [Show 1] (demo3 ''wave'' True ThreeComplete)) = TextureLoad 0 1
   \<and> fst (webgl_loaded False True 1000 True 0 1 (run [Show 1] (demo3 ''wave'' True ThreeComplete)))
       = Rejected TextureLoadError
   \<and> canvas_attached (gpu (snd (webgl_loaded False True 1000 True 0 1
        (run [Show 1] (demo3 ''wave'' True ThreeComplete)))))
   \<and> renderer_live (gpu (snd (webgl_loaded False True 1000 True 0 1
        (run [Show 1] (demo3 ''wave'' True ThreeComplete)))))
   \<and> geometry_live (gpu (snd (webgl_loaded False True 1000 True 0 1
        (run [Show 1] (demo3 ''wave'' True ThreeComplete)))))
   \<and> tex1_live (gpu (snd (webgl_loaded False True 1000 True 0 1
        (run [Show 1] (demo3 ''wave'' True ThreeComplete)))))
   \<and> task (run [Show 1, TexturesLoaded True True 1000 True] (demo3 ''wave'' True ThreeComplete))
       = FrameLoop 0 1
   \<and> fst (webgl_step 1100 False 0 1
        (run [Show 1, TexturesLoaded True True 1000 True] (demo3 ''wave'' True ThreeComplete)))
       = Rejected RenderError
   \<and> renderer_live (gpu (snd (webgl_step 1100 False 0 1
        (run [Show 1, TexturesLoaded True True 1000 True] (demo3 ''wave'' True ThreeComplete)))))
   \<and> geometry_live (gpu (snd (webgl_step 1100 False 0 1
        (run [Show 1, TexturesLoaded True True 1000 True] (demo3 ''wave'' True ThreeComplete)))))
   \<and> material_live (gpu (snd (webgl_step 1100 False 0 1
        (run [Show 1, TexturesLoaded True True 1000 True] (demo3 ''wave'' True ThreeComplete)))))
   \<and> tex0_live (gpu (snd (webgl_step 1100 False 0 1
        (run [Show 1, TexturesLoaded True True 1000 True] (demo3 ''wave'' True ThreeComplete)))))
   \<and> tex1_live (gpu (snd (webgl_step 1100 False 0 1
        (run [Show 1, TexturesLoaded True True 1000 True] (demo3 ''wave'' True ThreeComplete)))))
   \<and> \<not> isAnimating
        (run [Show 1, TexturesLoaded False True 1000 True, RunHandlers, TimerFired]
          (demo3 ''wave'' True ThreeComplete))
   \<and> canvas_attached (gpu
        (run [Show 1, TexturesLoaded False True 1000 True, RunHandlers, TimerFired]
          (demo3 ''wave'' True ThreeComplete)))
   \<and> renderer_live (gpu
        (run [Show 1, TexturesLoaded False True 1000 True, RunHandlers, TimerFired]
          (demo3 ''wave'' True ThreeComplete)))"
  unfolding run_gpu_begin run_gpu_frames run_gpu_failed
  by (simp add: webgl_loaded_def webgl_step_def session0_def Let_def)

theorem gpu_failure_keeps_resources_witness:
  "\<not> (\<not> canvas_attached (gpu (snd (webgl_loaded False True 1000 True 0 1
        (run [Show 1] (demo3 ''wave'' True ThreeComplete)))))
      \<and> \<not> renderer_live (gpu (snd (webgl_loaded False True 1000 True 0 1
        (run [Show 1] (demo3 ''wave'' True ThreeComplete))))))"
  using gpu_failure_keeps_resources by simp

text \<open>
  C3. Two slides, the second without an image, a callback supplied. \<^verbatim>\<open>show(1)\<close> from
  index 0 returns with the index at 1 and the slider idle, and the callback was not
  called.
\<close>

theorem swap_fires_no_change:
  "has_onChange (opts demo2) \<and> index demo2 = 0
   \<and> fst (show_slide 1 demo2) = Returned
   \<and> index (snd (show_slide 1 demo2)) = 1
   \<and> \<not> isAnimating (snd (show_slide 1 demo2))
   \<and> task (snd (show_slide 1 demo2)) = NoTask
   \<and> changes (snd (show_slide 1 demo2)) = []"
  by (simp add: demo2_eq show_slide_def slide_at_def activateIndex_def demo_opts_def set_active_def)

theorem swap_fires_no_change_witness:
  "length (changes (snd (show_slide 1 demo2))) \<noteq> 1"
  using swap_fires_no_change by simp

end
